theory Spec2Isabelle
  imports Complex_Main "HOL-Library.AList" "HOL-Library.Sublist" "HOL-Library.Word"
begin

section \<open>Python values as the plugin sees them\<close>

text \<open>
  The plugin \<^verbatim>\<open>editors/sublime/temper.py\<close> talks to the \<^verbatim>\<open>temper\<close> command line tool and
  works on what \<^verbatim>\<open>json.loads\<close> hands back: loosely typed Python values. A Python
  \<^verbatim>\<open>str\<close> is a sequence of code points, so it is a list of naturals here (slicing and
  \<^verbatim>\<open>len\<close> count code points, not bytes); \<open>lit\<close> turns a HOL string literal into one.
\<close>

type_synonym pystr = "nat list"

type_synonym byte = "8 word"

definition lit :: "string \<Rightarrow> pystr" where
  "lit s = map of_char s"

text \<open>A Python \<^verbatim>\<open>float\<close>: a finite value (every double is a rational) or one of the three
  special values that \<^verbatim>\<open>json.loads\<close> accepts.\<close>

datatype pyfloat = Finite rat | PosInf | NegInf | NaN

text \<open>A decoded JSON value. A \<^verbatim>\<open>dict\<close> keeps insertion order, so an object is an
  association list; \<^verbatim>\<open>None\<close> is \<open>JNull\<close>.\<close>

datatype json =
    JNull
  | JBool bool
  | JInt int
  | JFloat pyfloat
  | JString pystr
  | JArray "json list"
  | JObject "(pystr \<times> json) list"

text \<open>The exceptions that can travel through the plugin's functions.
  \<^verbatim>\<open>UnicodeDecodeError\<close> and \<^verbatim>\<open>UnicodeEncodeError\<close> are subclasses of \<^verbatim>\<open>ValueError\<close>, and
  \<^verbatim>\<open>json.JSONDecodeError\<close> is \<open>ValueError\<close> itself here. \<open>OSError\<close> stands for any operating
  system fault other than a missing executable. \<open>Unmodelled\<close> is not a Python exception:
  it is the answer of the reference decoder below on JSON text outside its fragment.\<close>

datatype pyerror =
    ValueError
  | UnicodeDecodeError
  | UnicodeEncodeError
  | TypeError
  | AttributeError
  | KeyError
  | IndexError
  | RecursionError
  | FileNotFoundError
  | OSError
  | Unmodelled

text \<open>What \<^verbatim>\<open>except ValueError\<close> catches.\<close>

definition is_ValueError :: "pyerror \<Rightarrow> bool" where
  "is_ValueError e = (e = ValueError \<or> e = UnicodeDecodeError \<or> e = UnicodeEncodeError)"

text \<open>Sequencing of computations that may raise: the first exception wins.\<close>

definition bind_err :: "pyerror + 'a \<Rightarrow> ('a \<Rightarrow> pyerror + 'b) \<Rightarrow> pyerror + 'b" where
  "bind_err x f = (case x of Inl e \<Rightarrow> Inl e | Inr v \<Rightarrow> f v)"

text \<open>Truthiness, as \<^verbatim>\<open>if not x\<close> tests it.\<close>

fun truthy :: "json \<Rightarrow> bool" where
  "truthy JNull = False"
| "truthy (JBool b) = b"
| "truthy (JInt i) = (i \<noteq> 0)"
| "truthy (JFloat f) = (f \<noteq> Finite 0)"
| "truthy (JString s) = (s \<noteq> [])"
| "truthy (JArray xs) = (xs \<noteq> [])"
| "truthy (JObject kvs) = (kvs \<noteq> [])"

text \<open>\<^verbatim>\<open>if language:\<close> on a value that is \<^verbatim>\<open>None\<close> or a \<^verbatim>\<open>str\<close>.\<close>

fun str_truthy :: "pystr option \<Rightarrow> bool" where
  "str_truthy None = False"
| "str_truthy (Some s) = (s \<noteq> [])"

text \<open>\<^verbatim>\<open>d.get(k, default)\<close> and \<^verbatim>\<open>d[k] = v\<close> on a \<^verbatim>\<open>dict\<close>: a new key goes last, an
  existing key keeps its place.\<close>

definition dict_get :: "(pystr \<times> json) list \<Rightarrow> pystr \<Rightarrow> json \<Rightarrow> json" where
  "dict_get kvs k d = (case map_of kvs k of None \<Rightarrow> d | Some v \<Rightarrow> v)"

definition dict_set :: "(pystr \<times> json) list \<Rightarrow> pystr \<Rightarrow> json \<Rightarrow> (pystr \<times> json) list" where
  "dict_set kvs k v = AList.update k v kvs"

text \<open>\<^verbatim>\<open>x.get(k, default)\<close> on any value: only a \<^verbatim>\<open>dict\<close> has the method.\<close>

fun py_get :: "json \<Rightarrow> pystr \<Rightarrow> json \<Rightarrow> pyerror + json" where
  "py_get (JObject kvs) k d = Inr (dict_get kvs k d)"
| "py_get _ k d = Inl AttributeError"

text \<open>\<^verbatim>\<open>for r in x\<close>: a list yields its elements, a \<^verbatim>\<open>dict\<close> its keys, a \<^verbatim>\<open>str\<close> its
  characters; nothing else that \<^verbatim>\<open>json.loads\<close> returns is iterable.\<close>

fun py_iter :: "json \<Rightarrow> pyerror + json list" where
  "py_iter (JArray xs) = Inr xs"
| "py_iter (JObject kvs) = Inr (map (\<lambda>kv. JString (fst kv)) kvs)"
| "py_iter (JString s) = Inr (map (\<lambda>c. JString [c]) s)"
| "py_iter _ = Inl TypeError"

text \<open>Hashing, as \<^verbatim>\<open>set(...)\<close> and \<^verbatim>\<open>x in some_set\<close> need it: lists and dicts are
  unhashable.\<close>

fun hashable :: "json \<Rightarrow> bool" where
  "hashable (JArray xs) = False"
| "hashable (JObject kvs) = False"
| "hashable _ = True"

text \<open>Python's \<^verbatim>\<open>==\<close> between hashable values decoded separately: numbers compare by
  value across \<^verbatim>\<open>bool\<close>, \<^verbatim>\<open>int\<close> and \<^verbatim>\<open>float\<close>, and \<^verbatim>\<open>nan\<close> equals nothing.\<close>

fun num_of :: "json \<Rightarrow> pyfloat option" where
  "num_of (JBool b) = Some (Finite (if b then 1 else 0))"
| "num_of (JInt i) = Some (Finite (of_int i))"
| "num_of (JFloat f) = Some f"
| "num_of _ = None"

definition py_eq :: "json \<Rightarrow> json \<Rightarrow> bool" where
  "py_eq a b =
     (case (num_of a, num_of b) of
        (Some x, Some y) \<Rightarrow> x = y \<and> x \<noteq> NaN
      | (None, None) \<Rightarrow> a = b
      | _ \<Rightarrow> False)"

definition py_in_set :: "json \<Rightarrow> json list \<Rightarrow> bool" where
  "py_in_set a xs = list_ex (py_eq a) xs"

section \<open>The snippet cache and the merged view\<close>

text \<open>The module-level \<^verbatim>\<open>_snippet_cache\<close>: whatever \<^verbatim>\<open>list_snippets\<close> and
  \<^verbatim>\<open>search_snippets\<close> returned last.\<close>

record cache =
  cache_local :: json
  cache_cloud :: json
  cache_loading :: bool

text \<open>\<^verbatim>\<open>set(r.get("slug") for r in local)\<close>: every element needs \<^verbatim>\<open>get\<close>, every slug a
  hash.\<close>

fun slug_set :: "json list \<Rightarrow> pyerror + json list" where
  "slug_set [] = Inr []"
| "slug_set (r # rs) =
     bind_err (py_get r (lit ''slug'') JNull) (\<lambda>s.
       if hashable s then bind_err (slug_set rs) (\<lambda>ss. Inr (s # ss)) else Inl TypeError)"

text \<open>The loop over \<^verbatim>\<open>cloud\<close>: a record is appended unless its slug is among the local
  slugs.\<close>

fun append_cloud :: "json list \<Rightarrow> json list \<Rightarrow> pyerror + json list" where
  "append_cloud local_slugs [] = Inr []"
| "append_cloud local_slugs (r # rs) =
     bind_err (py_get r (lit ''slug'') JNull) (\<lambda>s.
       if hashable s
       then bind_err (append_cloud local_slugs rs) (\<lambda>rest.
              Inr (if py_in_set s local_slugs then rest else r # rest))
       else Inl TypeError)"

definition get_all_snippets :: "cache \<Rightarrow> pyerror + json list" where
  "get_all_snippets c =
     bind_err (py_iter (cache_local c)) (\<lambda>local.
     bind_err (slug_set local) (\<lambda>local_slugs.
     bind_err (py_iter (cache_cloud c)) (\<lambda>cloud.
     bind_err (append_cloud local_slugs cloud) (\<lambda>rest.
       Inr (local @ rest)))))"

text \<open>A snippet record as the data model has it: a \<^verbatim>\<open>dict\<close> whose slug, when present, is a
  string. \<open>slug_of\<close> is \<^verbatim>\<open>r.get("slug")\<close> on such a record.\<close>

fun slug_of :: "json \<Rightarrow> json" where
  "slug_of (JObject kvs) = dict_get kvs (lit ''slug'') JNull"
| "slug_of _ = JNull"

fun is_record :: "json \<Rightarrow> bool" where
  "is_record (JObject kvs) =
     (case dict_get kvs (lit ''slug'') JNull of JString s \<Rightarrow> True | JNull \<Rightarrow> True | _ \<Rightarrow> False)"
| "is_record _ = False"

section \<open>Text helpers of the Python library\<close>

text \<open>\<^verbatim>\<open>str.isspace\<close> for one code point (the Unicode white space characters), and
  \<^verbatim>\<open>str.strip()\<close>, which removes them from both ends.\<close>

definition isspace :: "nat \<Rightarrow> bool" where
  "isspace c =
     (c \<in> {9, 10, 11, 12, 13, 28, 29, 30, 31, 32, 133, 160, 5760, 8232, 8233, 8239, 8287, 12288}
      \<or> (8192 \<le> c \<and> c \<le> 8202))"

definition strip :: "pystr \<Rightarrow> pystr" where
  "strip s = rev (dropWhile isspace (rev (dropWhile isspace s)))"

text \<open>\<^verbatim>\<open>s.startswith(p)\<close>, \<^verbatim>\<open>s.split("\n")[0]\<close> and \<^verbatim>\<open>s[:200]\<close>.\<close>

definition startswith :: "pystr \<Rightarrow> pystr \<Rightarrow> bool" where
  "startswith s p = prefix p s"

definition first_line :: "pystr \<Rightarrow> pystr" where
  "first_line s = takeWhile (\<lambda>c. c \<noteq> 10) s"

definition first200 :: "pystr \<Rightarrow> pystr" where
  "first200 s = take 200 s"

text \<open>\<^verbatim>\<open>bytes.decode("utf-8")\<close>, strict: a continuation byte is \<open>0x80..0xBF\<close>; overlong
  forms, surrogates and values above \<open>0x10FFFF\<close> are refused (\<open>None\<close> is
  \<^verbatim>\<open>UnicodeDecodeError\<close>).\<close>

definition is_cont :: "byte \<Rightarrow> bool" where
  "is_cont b = (0x80 \<le> b \<and> b \<le> 0xBF)"

definition low6 :: "byte \<Rightarrow> nat" where
  "low6 b = unat b - 0x80"

fun decode_utf8 :: "byte list \<Rightarrow> pystr option" where
  "decode_utf8 [] = Some []"
| "decode_utf8 (b # bs) =
     (if b < 0x80 then map_option (Cons (unat b)) (decode_utf8 bs)
      else if 0xC2 \<le> b \<and> b \<le> 0xDF then
        (case bs of
           c1 # r \<Rightarrow>
             if is_cont c1
             then map_option (Cons ((unat b - 0xC0) * 64 + low6 c1)) (decode_utf8 r)
             else None
         | _ \<Rightarrow> None)
      else if 0xE0 \<le> b \<and> b \<le> 0xEF then
        (case bs of
           c1 # c2 # r \<Rightarrow>
             if is_cont c1 \<and> is_cont c2
                \<and> (if b = 0xE0 then 0xA0 \<le> c1 else True)
                \<and> (if b = 0xED then c1 \<le> 0x9F else True)
             then map_option (Cons ((unat b - 0xE0) * 4096 + low6 c1 * 64 + low6 c2))
                    (decode_utf8 r)
             else None
         | _ \<Rightarrow> None)
      else if 0xF0 \<le> b \<and> b \<le> 0xF4 then
        (case bs of
           c1 # c2 # c3 # r \<Rightarrow>
             if is_cont c1 \<and> is_cont c2 \<and> is_cont c3
                \<and> (if b = 0xF0 then 0x90 \<le> c1 else True)
                \<and> (if b = 0xF4 then c1 \<le> 0x8F else True)
             then map_option
                    (Cons ((unat b - 0xF0) * 262144 + low6 c1 * 4096 + low6 c2 * 64 + low6 c3))
                    (decode_utf8 r)
             else None
         | _ \<Rightarrow> None)
      else None)"

text \<open>\<^verbatim>\<open>str.encode()\<close> (UTF-8, strict): a surrogate cannot be encoded (\<open>None\<close> is
  \<^verbatim>\<open>UnicodeEncodeError\<close>).\<close>

definition encode_cp :: "nat \<Rightarrow> byte list option" where
  "encode_cp c =
     (if c < 0x80 then Some [of_nat c]
      else if c < 0x800 then Some [of_nat (0xC0 + c div 64), of_nat (0x80 + c mod 64)]
      else if 0xD800 \<le> c \<and> c \<le> 0xDFFF then None
      else if c < 0x10000 then
        Some [of_nat (0xE0 + c div 4096), of_nat (0x80 + c div 64 mod 64), of_nat (0x80 + c mod 64)]
      else if c < 0x110000 then
        Some [of_nat (0xF0 + c div 262144), of_nat (0x80 + c div 4096 mod 64),
              of_nat (0x80 + c div 64 mod 64), of_nat (0x80 + c mod 64)]
      else None)"

fun encode_utf8 :: "pystr \<Rightarrow> byte list option" where
  "encode_utf8 [] = Some []"
| "encode_utf8 (c # cs) =
     (case encode_cp c of
        None \<Rightarrow> None
      | Some bs \<Rightarrow> map_option (append bs) (encode_utf8 cs))"

section \<open>The environment of the plugin\<close>

text \<open>
  What the plugin cannot decide by itself is a parameter. \<open>popen\<close> is
  \<^verbatim>\<open>subprocess.Popen\<close> on an argument vector: it raises, or gives a process whose
  \<^verbatim>\<open>communicate\<close> maps the input bytes to an exception or to the captured output, error
  stream and exit status. \<open>loads\<close> is \<^verbatim>\<open>json.loads\<close>, \<open>str_exc\<close> and \<open>str_val\<close> are
  Python's \<^verbatim>\<open>str()\<close> on an exception and on a value that is not a \<^verbatim>\<open>str\<close>, and
  \<open>expanduser\<close> is \<^verbatim>\<open>os.path.expanduser\<close>. \<open>setting_cli_path\<close> is the entry
  \<^verbatim>\<open>cli_path\<close> of the settings file, when present.
\<close>

datatype comm = CommRaises pyerror | Exited "byte list" "byte list" int

datatype spawned = PopenRaises pyerror | Process "byte list option \<Rightarrow> comm"

record env =
  setting_cli_path :: "pystr option"
  popen :: "pystr list \<Rightarrow> spawned"
  loads :: "pystr \<Rightarrow> pyerror + json"
  str_exc :: "pyerror \<Rightarrow> pystr"
  str_val :: "json \<Rightarrow> pystr"
  expanduser :: "pystr \<Rightarrow> pystr"

text \<open>What the plugin does to the outside, in order: a subprocess started, a line on the
  console, a blocking error dialog, a status bar message, the quick panel opened on its
  items, and a callback queued for the UI thread by \<^verbatim>\<open>sublime.set_timeout\<close>.\<close>

datatype ui_call = RunCommand pystr "(pystr \<times> json) list" | SetStatus pystr

datatype event =
    Popen "pystr list"
  | Print pystr
  | ErrorMessage pystr
  | StatusMessage pystr
  | ShowQuickPanel "json list list"
  | SetTimeout ui_call

section \<open>The process invoker\<close>

definition get_cli_path :: "env \<Rightarrow> pystr" where
  "get_cli_path e = (case setting_cli_path e of None \<Rightarrow> lit ''temper'' | Some p \<Rightarrow> p)"

text \<open>The two \<^verbatim>\<open>except\<close> clauses of \<^verbatim>\<open>run_temper\<close>: a dialog, then \<^verbatim>\<open>None\<close>.\<close>

definition temper_except :: "env \<Rightarrow> pyerror \<Rightarrow> event list" where
  "temper_except e x =
     (if x = FileNotFoundError
      then [ErrorMessage
              (lit ''temper-cli not found at ''
               @ [39] @ get_cli_path e @ [39] @ lit ''.'' @ [10, 10]
               @ lit ''Please install temper-cli and configure the path in Temper settings.'')]
      else [ErrorMessage (lit ''Error running temper: '' @ str_exc e x)])"

text \<open>\<^verbatim>\<open>stdin.encode() if stdin else None\<close>: the outer \<open>None\<close> is
  \<^verbatim>\<open>UnicodeEncodeError\<close>.\<close>

fun encode_input :: "pystr option \<Rightarrow> byte list option option" where
  "encode_input None = Some None"
| "encode_input (Some s) = (if s = [] then Some None else map_option Some (encode_utf8 s))"

text \<open>\<^verbatim>\<open>run_temper(args, stdin)\<close>: the events, and the returned text or \<^verbatim>\<open>None\<close>. The
  steps keep the source's order: \<^verbatim>\<open>Popen\<close>, the encoding of a non-empty \<^verbatim>\<open>stdin\<close>,
  \<^verbatim>\<open>communicate\<close>, the log line (which decodes the error stream) and the decoding of the
  output.\<close>

definition run_temper :: "env \<Rightarrow> pystr list \<Rightarrow> pystr option \<Rightarrow> event list \<times> pystr option" where
  "run_temper e args stdin =
     (let argv = get_cli_path e # args in
      case popen e argv of
        PopenRaises x \<Rightarrow> (Popen argv # temper_except e x, None)
      | Process communicate \<Rightarrow>
          (case encode_input stdin of
             None \<Rightarrow> (Popen argv # temper_except e UnicodeEncodeError, None)
           | Some input \<Rightarrow>
               (case communicate input of
                  CommRaises x \<Rightarrow> (Popen argv # temper_except e x, None)
                | Exited out err returncode \<Rightarrow>
                    (if returncode \<noteq> 0 \<and> err \<noteq> []
                     then (case decode_utf8 err of
                             None \<Rightarrow> (Popen argv # temper_except e UnicodeDecodeError, None)
                           | Some msg \<Rightarrow>
                               (case decode_utf8 out of
                                  None \<Rightarrow>
                                    (Popen argv # Print (lit ''Temper error: '' @ msg)
                                       # temper_except e UnicodeDecodeError, None)
                                | Some text \<Rightarrow>
                                    ([Popen argv, Print (lit ''Temper error: '' @ msg)],
                                     Some (strip text))))
                     else (case decode_utf8 out of
                             None \<Rightarrow> (Popen argv # temper_except e UnicodeDecodeError, None)
                           | Some text \<Rightarrow> ([Popen argv], Some (strip text)))))))"

section \<open>Fetching and parsing\<close>

text \<open>The loop \<^verbatim>\<open>for r in results: r["isLocal"] = flag\<close>, then \<^verbatim>\<open>return results\<close>. Item
  assignment with a string key works on a \<^verbatim>\<open>dict\<close> only; the elements of a \<^verbatim>\<open>dict\<close> or
  of a \<^verbatim>\<open>str\<close> are strings, so the loop raises on the first of them.\<close>

fun py_setitem :: "json \<Rightarrow> pystr \<Rightarrow> json \<Rightarrow> pyerror + json" where
  "py_setitem (JObject kvs) k v = Inr (JObject (dict_set kvs k v))"
| "py_setitem _ k v = Inl TypeError"

fun mark_all :: "bool \<Rightarrow> json list \<Rightarrow> pyerror + json list" where
  "mark_all flag [] = Inr []"
| "mark_all flag (r # rs) =
     bind_err (py_setitem r (lit ''isLocal'') (JBool flag)) (\<lambda>r'.
     bind_err (mark_all flag rs) (\<lambda>rs'. Inr (r' # rs')))"

fun mark_results :: "bool \<Rightarrow> json \<Rightarrow> pyerror + json" where
  "mark_results flag (JArray rs) = bind_err (mark_all flag rs) (\<lambda>rs'. Inr (JArray rs'))"
| "mark_results flag (JObject kvs) = (if kvs = [] then Inr (JObject []) else Inl TypeError)"
| "mark_results flag (JString s) = (if s = [] then Inr (JString []) else Inl TypeError)"
| "mark_results flag _ = Inl TypeError"

text \<open>Lines 85-96 of \<^verbatim>\<open>list_snippets\<close> and 109-120 of \<^verbatim>\<open>search_snippets\<close>, which differ
  in the flag only: what becomes of the text that \<^verbatim>\<open>run_temper\<close> returned. The
  \<^verbatim>\<open>try\<close> block holds the decoding, the \<^verbatim>\<open>get\<close> and the loop; \<^verbatim>\<open>except ValueError\<close>
  gives the empty list and lets every other exception pass.\<close>

definition parse_list :: "env \<Rightarrow> bool \<Rightarrow> pystr option \<Rightarrow> pyerror + json" where
  "parse_list e flag output =
     (case output of
        None \<Rightarrow> Inr (JArray [])
      | Some raw \<Rightarrow>
          if raw = [] then Inr (JArray [])
          else (case bind_err (loads e raw) (\<lambda>data.
                      bind_err (py_get data (lit ''results'') (JArray [])) (\<lambda>results.
                        mark_results flag results)) of
                  Inl x \<Rightarrow> if is_ValueError x then Inr (JArray []) else Inl x
                | Inr results \<Rightarrow> Inr results))"

definition language_args :: "pystr option \<Rightarrow> pystr list" where
  "language_args language =
     (case language of
        None \<Rightarrow> []
      | Some l \<Rightarrow> if l = [] then [] else [lit ''-l'', l])"

definition list_snippets :: "env \<Rightarrow> pystr option \<Rightarrow> event list \<times> (pyerror + json)" where
  "list_snippets e language =
     (let (evs, output) = run_temper e ([lit ''list'', lit ''--json''] @ language_args language) None
      in (evs, parse_list e True output))"

definition search_snippets ::
    "env \<Rightarrow> pystr option \<Rightarrow> pystr option \<Rightarrow> event list \<times> (pyerror + json)" where
  "search_snippets e query language =
     (let args = [lit ''search'']
                 @ (case query of None \<Rightarrow> [] | Some q \<Rightarrow> if q = [] then [] else [q])
                 @ [lit ''--json''] @ language_args language;
          (evs, output) = run_temper e args None
      in (evs, parse_list e False output))"




text \<open>Lines 159-174 of \<^verbatim>\<open>run_snippet\<close>: the result for the text that \<^verbatim>\<open>run_temper\<close>
  returned. \<open>invalid_response\<close> is the dictionary of line 174.\<close>

definition failed_to_run :: json where
  "failed_to_run =
     JObject [(lit ''success'', JBool False), (lit ''output'', JString []),
              (lit ''error'', JString (lit ''Failed to run temper''))]"

definition invalid_response :: "pystr \<Rightarrow> json" where
  "invalid_response output =
     JObject [(lit ''success'', JBool False), (lit ''output'', JString output),
              (lit ''error'', JString (lit ''Invalid response: '' @ first200 output))]"

definition parse_run :: "env \<Rightarrow> pystr option \<Rightarrow> pyerror + json" where
  "parse_run e output =
     (case output of
        None \<Rightarrow> Inr failed_to_run
      | Some raw \<Rightarrow>
          if raw = [] then Inr failed_to_run
          else (case loads e raw of
                  Inr v \<Rightarrow> Inr v
                | Inl x \<Rightarrow>
                    if \<not> is_ValueError x then Inl x
                    else if startswith raw (lit ''{'')
                    then (case loads e (first_line raw) of
                            Inr v \<Rightarrow> Inr v
                          | Inl y \<Rightarrow>
                              if is_ValueError y then Inr (invalid_response raw) else Inl y)
                    else Inr (invalid_response raw)))"

definition run_snippet :: "env \<Rightarrow> pystr \<Rightarrow> pystr option \<Rightarrow> event list \<times> (pyerror + json)" where
  "run_snippet e slug stdin =
     (let (evs, output) = run_temper e [lit ''run'', slug, lit ''--json''] stdin
      in (evs, parse_run e output))"

section \<open>The snippets directory and the gating predicate\<close>

text \<open>\<^verbatim>\<open>get_snippets_dir\<close>: the \<^verbatim>\<open>return\<close> inside the \<^verbatim>\<open>try\<close> gives whatever the payload
  holds under \<^verbatim>\<open>snippetsDir\<close> (the empty string when the key is missing); without
  output, or on a \<^verbatim>\<open>ValueError\<close>, the fallback path.\<close>

definition parse_config :: "env \<Rightarrow> pystr option \<Rightarrow> pyerror + json" where
  "parse_config e output =
     (let fallback = Inr (JString (expanduser e (lit ''~/Snippets''))) in
      case output of
        None \<Rightarrow> fallback
      | Some raw \<Rightarrow>
          if raw = [] then fallback
          else (case bind_err (loads e raw) (\<lambda>config.
                      py_get config (lit ''snippetsDir'') (JString [])) of
                  Inl x \<Rightarrow> if is_ValueError x then fallback else Inl x
                | Inr d \<Rightarrow> Inr d))"

definition get_snippets_dir :: "env \<Rightarrow> event list \<times> (pyerror + json)" where
  "get_snippets_dir e =
     (let (evs, output) = run_temper e [lit ''config'', lit ''--json''] None
      in (evs, parse_config e output))"

text \<open>\<^verbatim>\<open>file_path.startswith(d)\<close> for a decoded value \<open>d\<close>: only a \<^verbatim>\<open>str\<close> is accepted (a
  tuple cannot come out of \<^verbatim>\<open>json.loads\<close>).\<close>

fun py_startswith :: "pystr \<Rightarrow> json \<Rightarrow> pyerror + bool" where
  "py_startswith s (JString p) = Inr (startswith s p)"
| "py_startswith s _ = Inl TypeError"

text \<open>\<^verbatim>\<open>is_snippet_file(file_path)\<close>; \<^verbatim>\<open>view.file_name()\<close> is \<^verbatim>\<open>None\<close> for an unsaved
  buffer.\<close>

definition is_snippet_file :: "env \<Rightarrow> pystr option \<Rightarrow> event list \<times> (pyerror + bool)" where
  "is_snippet_file e file_path =
     (case file_path of
        None \<Rightarrow> ([], Inr False)
      | Some p \<Rightarrow>
          if p = [] then ([], Inr False)
          else (let (evs, d) = get_snippets_dir e
                in (evs, bind_err d (py_startswith p))))"

section \<open>The search-and-insert session\<close>

text \<open>\<^verbatim>\<open>"{0}".format(v)\<close>: a \<^verbatim>\<open>str\<close> is kept as it is.\<close>

fun py_format :: "env \<Rightarrow> json \<Rightarrow> pystr" where
  "py_format e (JString s) = s"
| "py_format e v = str_val e v"

text \<open>\<^verbatim>\<open>format_snippet_item\<close>, on a \<^verbatim>\<open>dict\<close> (the merged view holds nothing else).\<close>

definition format_snippet_item :: "env \<Rightarrow> (pystr \<times> json) list \<Rightarrow> json list" where
  "format_snippet_item e snippet =
     (let slug = dict_get snippet (lit ''slug'') (JString []);
          title = dict_get snippet (lit ''title'') slug;
          description = dict_get snippet (lit ''description'') (JString []);
          is_local = dict_get snippet (lit ''isLocal'') (JBool False)
      in if truthy is_local
         then [JString (py_format e title @ lit ''  [local]''), description]
         else [title, description])"

fun format_items :: "env \<Rightarrow> json list \<Rightarrow> pyerror + json list list" where
  "format_items e [] = Inr []"
| "format_items e (JObject kvs # rs) =
     bind_err (format_items e rs) (\<lambda>items. Inr (format_snippet_item e kvs # items))"
| "format_items e (_ # rs) = Inl AttributeError"

text \<open>\<^verbatim>\<open>language in x\<close> for a string \<^verbatim>\<open>language\<close>: membership in a list, a substring
  test on a \<^verbatim>\<open>str\<close>, a key test on a \<^verbatim>\<open>dict\<close>; nothing else is a container.\<close>

fun py_contains :: "json \<Rightarrow> pystr \<Rightarrow> pyerror + bool" where
  "py_contains (JArray xs) l = Inr (JString l \<in> set xs)"
| "py_contains (JString s) l = Inr (sublist l s)"
| "py_contains (JObject kvs) l = Inr (l \<in> fst ` set kvs)"
| "py_contains _ l = Inl TypeError"

text \<open>The comprehension
  \<^verbatim>\<open>[r for r in self.results if self.language in r.get("languages", [])]\<close>.\<close>

fun filter_language :: "pystr \<Rightarrow> json list \<Rightarrow> pyerror + json list" where
  "filter_language l [] = Inr []"
| "filter_language l (r # rs) =
     bind_err (py_get r (lit ''languages'') (JArray [])) (\<lambda>langs.
     bind_err (py_contains langs l) (\<lambda>keep.
     bind_err (filter_language l rs) (\<lambda>rest. Inr (if keep then r # rest else rest))))"

text \<open>Lines 230-239: \<^verbatim>\<open>self.results\<close> is the merged view, replaced by the filtered list
  when a language is set and the filtered list is not empty.\<close>

definition language_results :: "pystr option \<Rightarrow> json list \<Rightarrow> pyerror + json list" where
  "language_results language all_snippets =
     (case language of
        None \<Rightarrow> Inr all_snippets
      | Some l \<Rightarrow>
          if l = [] then Inr all_snippets
          else bind_err (filter_language l all_snippets) (\<lambda>filtered.
                 Inr (if filtered \<noteq> [] then filtered else all_snippets)))"

text \<open>The callback \<^verbatim>\<open>show_panel\<close> of \<^verbatim>\<open>TemperSearchInsertCommand.run\<close>: the events, the
  value assigned to \<^verbatim>\<open>self.results\<close> (\<open>None\<close> when nothing was assigned), and the
  exception that ended the callback, if any. The merged view is assigned before the
  filter runs, so it stays assigned when the filter raises.\<close>

definition show_panel ::
    "env \<Rightarrow> cache \<Rightarrow> pystr option \<Rightarrow> event list \<times> json list option \<times> pyerror option" where
  "show_panel e c language =
     (case get_all_snippets c of
        Inl x \<Rightarrow> ([], None, Some x)
      | Inr all_snippets \<Rightarrow>
          if all_snippets = []
          then ([StatusMessage (lit ''Temper: No snippets available'')], None, None)
          else (case language_results language all_snippets of
                  Inl x \<Rightarrow> ([], Some all_snippets, Some x)
                | Inr results \<Rightarrow>
                    (case format_items e results of
                       Inl x \<Rightarrow> ([], Some results, Some x)
                     | Inr items \<Rightarrow>
                         ([ShowQuickPanel items, StatusMessage []], Some results, None))))"



section \<open>A reference decoder\<close>

text \<open>
  \<^verbatim>\<open>json.loads\<close> on a fragment of JSON, for running the plugin's functions on concrete
  tool output: white space, objects, arrays, strings with the one-letter escapes,
  integers, \<^verbatim>\<open>true\<close>, \<^verbatim>\<open>false\<close> and \<^verbatim>\<open>null\<close>. It follows the scanner of the Python
  library: the value is read from the first character, a repeated key keeps its first
  place and its last value, and text after the value is an error. Text that is not JSON
  gives \<open>ValueError\<close>. Text that uses a construct outside the fragment (a number with a
  fraction or an exponent, \<^verbatim>\<open>NaN\<close>, \<^verbatim>\<open>Infinity\<close>, a \<^verbatim>\<open>\u\<close> escape) gives \<open>Unmodelled\<close>, and
  so would a run that used up its fuel. The fuel is a list that only counts steps: it
  has one element more than the text has characters, and every nested value consumes a
  character.
\<close>

datatype 'a scan = Scanned 'a pystr | Malformed | Outside

definition is_ws :: "nat \<Rightarrow> bool" where
  "is_ws c = (c = 32 \<or> c = 9 \<or> c = 10 \<or> c = 13)"

definition skip_ws :: "pystr \<Rightarrow> pystr" where
  "skip_ws s = dropWhile is_ws s"

definition is_digit :: "nat \<Rightarrow> bool" where
  "is_digit c = (48 \<le> c \<and> c \<le> 57)"

definition unescape :: "nat \<Rightarrow> nat option" where
  "unescape c =
     (if c = 34 then Some 34 else if c = 92 then Some 92 else if c = 47 then Some 47
      else if c = 98 then Some 8 else if c = 102 then Some 12 else if c = 110 then Some 10
      else if c = 114 then Some 13 else if c = 116 then Some 9 else None)"

text \<open>The body of a string, after the opening quote; \<open>acc\<close> holds the characters read so
  far, last first.\<close>

fun scan_string :: "pystr \<Rightarrow> pystr \<Rightarrow> pystr scan" where
  "scan_string acc [] = Malformed"
| "scan_string acc (c # cs) =
     (if c = 34 then Scanned (rev acc) cs
      else if c = 92 then
        (case cs of
           [] \<Rightarrow> Malformed
         | d # ds \<Rightarrow>
             if d = 117 then Outside
             else (case unescape d of
                     None \<Rightarrow> Malformed
                   | Some u \<Rightarrow> scan_string (u # acc) ds))
      else if c < 32 then Malformed
      else scan_string (c # acc) cs)"

definition digits_value :: "pystr \<Rightarrow> int" where
  "digits_value ds = foldl (\<lambda>n d. 10 * n + (int d - 48)) 0 ds"

text \<open>Whether a fraction or an exponent follows the integer part.\<close>

definition float_tail :: "pystr \<Rightarrow> bool" where
  "float_tail s =
     (case s of
        [] \<Rightarrow> False
      | c # r \<Rightarrow>
          if c = 46 then (case r of [] \<Rightarrow> False | d # _ \<Rightarrow> is_digit d)
          else if c = 101 \<or> c = 69 then
            (case r of
               [] \<Rightarrow> False
             | d # r' \<Rightarrow>
                 if d = 43 \<or> d = 45 then (case r' of [] \<Rightarrow> False | d' # _ \<Rightarrow> is_digit d')
                 else is_digit d)
          else False)"

text \<open>The integer part \<^verbatim>\<open>0|[1-9][0-9]*\<close> at the head of \<open>s\<close>, with the sign already read.\<close>

definition scan_int :: "bool \<Rightarrow> pystr \<Rightarrow> json scan" where
  "scan_int negative s =
     (case s of
        [] \<Rightarrow> Malformed
      | d # ds \<Rightarrow>
          if \<not> is_digit d then
            (if negative \<and> prefix (lit ''Infinity'') s then Outside else Malformed)
          else (let more = (if d = 48 then [] else takeWhile is_digit ds);
                    rest = drop (length more) ds;
                    n = digits_value (d # more)
                in if float_tail rest then Outside
                   else Scanned (JInt (if negative then - n else n)) rest))"

fun parse_value :: "nat list \<Rightarrow> pystr \<Rightarrow> json scan"
  and parse_array :: "nat list \<Rightarrow> json list \<Rightarrow> pystr \<Rightarrow> json scan"
  and parse_object :: "nat list \<Rightarrow> (pystr \<times> json) list \<Rightarrow> pystr \<Rightarrow> json scan"
where
  "parse_value [] s = Outside"
| "parse_value (f # n) [] = Malformed"
| "parse_value (f # n) (c # cs) =
     (if c = 34 then
        (case scan_string [] cs of
           Scanned str rest \<Rightarrow> Scanned (JString str) rest
         | Malformed \<Rightarrow> Malformed
         | Outside \<Rightarrow> Outside)
      else if c = 123 then
        (case skip_ws cs of
           [] \<Rightarrow> Malformed
         | d # r \<Rightarrow> if d = 125 then Scanned (JObject []) r else parse_object n [] (d # r))
      else if c = 91 then
        (case skip_ws cs of
           [] \<Rightarrow> Malformed
         | d # r \<Rightarrow> if d = 93 then Scanned (JArray []) r else parse_array n [] (d # r))
      else if c = 110 then
        (if prefix (lit ''null'') (c # cs) then Scanned JNull (drop 3 cs) else Malformed)
      else if c = 116 then
        (if prefix (lit ''true'') (c # cs) then Scanned (JBool True) (drop 3 cs) else Malformed)
      else if c = 102 then
        (if prefix (lit ''false'') (c # cs) then Scanned (JBool False) (drop 4 cs) else Malformed)
      else if c = 45 then scan_int True cs
      else if is_digit c then scan_int False (c # cs)
      else if c = 78 then (if prefix (lit ''NaN'') (c # cs) then Outside else Malformed)
      else if c = 73 then (if prefix (lit ''Infinity'') (c # cs) then Outside else Malformed)
      else Malformed)"
| "parse_array [] acc s = Outside"
| "parse_array (f # n) acc s =
     (case parse_value n s of
        Scanned v rest \<Rightarrow>
          (case skip_ws rest of
             [] \<Rightarrow> Malformed
           | d # r \<Rightarrow>
               if d = 93 then Scanned (JArray (rev (v # acc))) r
               else if d = 44 then parse_array n (v # acc) (skip_ws r)
               else Malformed)
      | Malformed \<Rightarrow> Malformed
      | Outside \<Rightarrow> Outside)"
| "parse_object [] acc s = Outside"
| "parse_object (f # n) acc s =
     (case s of
        [] \<Rightarrow> Malformed
      | q # cs \<Rightarrow>
          if q \<noteq> 34 then Malformed
          else (case scan_string [] cs of
                  Scanned key rest \<Rightarrow>
                    (case skip_ws rest of
                       [] \<Rightarrow> Malformed
                     | colon # r \<Rightarrow>
                         if colon \<noteq> 58 then Malformed
                         else (case parse_value n (skip_ws r) of
                                 Scanned v rest' \<Rightarrow>
                                   (case skip_ws rest' of
                                      [] \<Rightarrow> Malformed
                                    | d # r' \<Rightarrow>
                                        if d = 125 then Scanned (JObject (dict_set acc key v)) r'
                                        else if d = 44
                                        then parse_object n (dict_set acc key v) (skip_ws r')
                                        else Malformed)
                               | Malformed \<Rightarrow> Malformed
                               | Outside \<Rightarrow> Outside))
                | Malformed \<Rightarrow> Malformed
                | Outside \<Rightarrow> Outside))"

definition json_loads :: "pystr \<Rightarrow> pyerror + json" where
  "json_loads s =
     (case parse_value (0 # s) (skip_ws s) of
        Scanned v rest \<Rightarrow> if skip_ws rest = [] then Inr v else Inl ValueError
      | Malformed \<Rightarrow> Inl ValueError
      | Outside \<Rightarrow> Inl Unmodelled)"

text \<open>An environment for running the functions on concrete tool output: the reference
  decoder, no settings entry, a home directory, and a tool that is not installed until
  \<open>popen\<close> is replaced.\<close>

definition base_env :: env where
  "base_env =
     \<lparr>setting_cli_path = None,
      popen = (\<lambda>argv. PopenRaises FileNotFoundError),
      loads = json_loads,
      str_exc = (\<lambda>x. []),
      str_val = (\<lambda>v. []),
      expanduser = (\<lambda>p. lit ''/home/u'' @ drop 1 p)\<rparr>"

text \<open>A tool that answers every invocation with the same output, error stream and exit
  status.\<close>

definition answering :: "byte list \<Rightarrow> byte list \<Rightarrow> int \<Rightarrow> pystr list \<Rightarrow> spawned" where
  "answering out err returncode argv = Process (\<lambda>input. Exited out err returncode)"

text \<open>ASCII text as the bytes a tool writes.\<close>

definition bytes_of :: "string \<Rightarrow> byte list" where
  "bytes_of s = map of_char s"

section \<open>Vocabulary of the statements\<close>

text \<open>A value that is a \<^verbatim>\<open>dict\<close>, and a record with the tier flag set as the loop of
  \<^verbatim>\<open>list_snippets\<close> and \<^verbatim>\<open>search_snippets\<close> sets it.\<close>

fun is_dict :: "json \<Rightarrow> bool" where
  "is_dict (JObject kvs) = True"
| "is_dict _ = False"

fun with_flag :: "bool \<Rightarrow> json \<Rightarrow> json" where
  "with_flag flag (JObject kvs) = JObject (dict_set kvs (lit ''isLocal'') (JBool flag))"
| "with_flag flag v = v"


section \<open>Scenarios\<close>


text \<open>A cache with two local records for \<^verbatim>\<open>python\<close> and nothing from the gallery.\<close>

definition python_cache :: cache where
  "python_cache =
     \<lparr>cache_local = JArray
        [JObject [(lit ''slug'', JString (lit ''a'')),
                  (lit ''languages'', JArray [JString (lit ''python'')]),
                  (lit ''isLocal'', JBool True)],
         JObject [(lit ''slug'', JString (lit ''b'')),
                  (lit ''languages'', JArray [JString (lit ''python'')]),
                  (lit ''isLocal'', JBool True)]],
      cache_cloud = JArray [],
      cache_loading = False\<rparr>"

section \<open>Merge precedence\<close>

lemma py_eq_slug:
  assumes "is_record a" "is_record b"
  shows "py_eq (slug_of a) (slug_of b) = (slug_of a = slug_of b)"
proof -
  obtain ka kb where ab: "a = JObject ka" "b = JObject kb"
    using assms by (cases a; cases b) auto
  show ?thesis
    using assms unfolding ab
    by (auto simp: py_eq_def split: json.splits)
qed

lemma slug_set_records:
  "list_all is_record rs \<Longrightarrow> slug_set rs = Inr (map slug_of rs)"
proof (induction rs)
  case Nil
  show ?case by simp
next
  case (Cons r rs)
  then obtain kvs where r: "r = JObject kvs" by (cases r) auto
  from Cons.prems have "hashable (dict_get kvs (lit ''slug'') JNull)"
    unfolding r by (auto split: json.splits)
  with Cons show ?case
    unfolding r by (simp add: bind_err_def)
qed

lemma py_in_set_records:
  assumes "is_record r" "list_all is_record ls"
  shows "py_in_set (slug_of r) (map slug_of ls) = (slug_of r \<in> slug_of ` set ls)"
proof -
  have "\<And>l. l \<in> set ls \<Longrightarrow> py_eq (slug_of r) (slug_of l) = (slug_of r = slug_of l)"
    using assms by (simp add: py_eq_slug list_all_iff)
  then show ?thesis
    by (auto simp: py_in_set_def list_ex_iff)
qed

lemma append_cloud_records:
  assumes "list_all is_record ls"
  shows "list_all is_record rs \<Longrightarrow>
    append_cloud (map slug_of ls) rs =
      Inr (filter (\<lambda>r. slug_of r \<notin> slug_of ` set ls) rs)"
proof (induction rs)
  case Nil
  show ?case by simp
next
  case (Cons r rs)
  then obtain kvs where r: "r = JObject kvs" by (cases r) auto
  from Cons.prems have rec: "is_record (JObject kvs)" by (simp add: r)
  then have h: "hashable (dict_get kvs (lit ''slug'') JNull)"
    by (auto split: json.splits)
  have m: "py_in_set (dict_get kvs (lit ''slug'') JNull) (map slug_of ls) =
      (dict_get kvs (lit ''slug'') JNull \<in> slug_of ` set ls)"
    using py_in_set_records [OF rec assms] by simp
  from Cons h m show ?case
    unfolding r by (simp add: bind_err_def)
qed

text \<open>
  C1. For local records L and remote records R held by the cache, the merged view is all
  of L in its order, followed by exactly the records of R whose slug is not a slug of L,
  in R's order; so every record of L occurs in it as often as in L, and no record of
  the appended part has a slug of L.
\<close>

theorem get_all_snippets_merge:
  assumes "cache_local c = JArray L" and "cache_cloud c = JArray R"
    and "list_all is_record L" and "list_all is_record R"
  shows "get_all_snippets c =
           Inr (L @ filter (\<lambda>r. slug_of r \<notin> slug_of ` set L) R)
         \<and> (\<forall>m. get_all_snippets c = Inr m \<longrightarrow>
              take (length L) m = L
              \<and> (\<forall>r \<in> set (drop (length L) m). r \<in> set R \<and> slug_of r \<notin> slug_of ` set L)
              \<and> (\<forall>r \<in> set R. slug_of r \<notin> slug_of ` set L \<longrightarrow> r \<in> set (drop (length L) m)))"
proof -
  have eq: "get_all_snippets c =
      Inr (L @ filter (\<lambda>r. slug_of r \<notin> slug_of ` set L) R)"
    using assms
    by (simp add: get_all_snippets_def bind_err_def slug_set_records append_cloud_records)
  show ?thesis
    unfolding eq by auto
qed

theorem get_all_snippets_merge_witness:
  "get_all_snippets
     \<lparr>cache_local = JArray
        [JObject [(lit ''slug'', JString (lit ''a'')), (lit ''isLocal'', JBool True)],
         JObject [(lit ''slug'', JString (lit ''b'')), (lit ''isLocal'', JBool True)]],
      cache_cloud = JArray
        [JObject [(lit ''slug'', JString (lit ''c'')), (lit ''isLocal'', JBool False)],
         JObject [(lit ''slug'', JString (lit ''a'')), (lit ''isLocal'', JBool False)],
         JObject [(lit ''slug'', JString (lit ''d'')), (lit ''isLocal'', JBool False)]],
      cache_loading = False\<rparr>
   = Inr
       [JObject [(lit ''slug'', JString (lit ''a'')), (lit ''isLocal'', JBool True)],
        JObject [(lit ''slug'', JString (lit ''b'')), (lit ''isLocal'', JBool True)],
        JObject [(lit ''slug'', JString (lit ''c'')), (lit ''isLocal'', JBool False)],
        JObject [(lit ''slug'', JString (lit ''d'')), (lit ''isLocal'', JBool False)]]"
  using get_all_snippets_merge
    [of "\<lparr>cache_local = JArray
           [JObject [(lit ''slug'', JString (lit ''a'')), (lit ''isLocal'', JBool True)],
            JObject [(lit ''slug'', JString (lit ''b'')), (lit ''isLocal'', JBool True)]],
         cache_cloud = JArray
           [JObject [(lit ''slug'', JString (lit ''c'')), (lit ''isLocal'', JBool False)],
            JObject [(lit ''slug'', JString (lit ''a'')), (lit ''isLocal'', JBool False)],
            JObject [(lit ''slug'', JString (lit ''d'')), (lit ''isLocal'', JBool False)]],
         cache_loading = False\<rparr>"
        "[JObject [(lit ''slug'', JString (lit ''a'')), (lit ''isLocal'', JBool True)],
          JObject [(lit ''slug'', JString (lit ''b'')), (lit ''isLocal'', JBool True)]]"
        "[JObject [(lit ''slug'', JString (lit ''c'')), (lit ''isLocal'', JBool False)],
          JObject [(lit ''slug'', JString (lit ''a'')), (lit ''isLocal'', JBool False)],
          JObject [(lit ''slug'', JString (lit ''d'')), (lit ''isLocal'', JBool False)]]"]
  by (simp add: dict_get_def lit_def)

section \<open>Evaluation on concrete tool output\<close>

text \<open>The defining equations that the concrete runs below unfold.\<close>

lemmas decoder_eval = json_loads_def lit_def skip_ws_def is_ws_def is_digit_def unescape_def
  scan_int_def float_tail_def digits_value_def dict_set_def dict_get_def

lemmas tool_eval = run_temper_def get_cli_path_def base_env_def answering_def bytes_of_def
  strip_def isspace_def is_cont_def low6_def

section \<open>What a single fetch returns\<close>

lemma slug_of_with_flag: "slug_of (with_flag flag r) = slug_of r"
  by (cases r) (simp_all add: dict_get_def dict_set_def update_conv' lit_def)

lemma mark_all_dicts:
  "list_all is_dict rs \<Longrightarrow> mark_all flag rs = Inr (map (with_flag flag) rs)"
proof (induction rs)
  case Nil
  show ?case by simp
next
  case (Cons r rs)
  then obtain kvs where "r = JObject kvs" by (cases r) auto
  with Cons show ?case by (simp add: bind_err_def)
qed

lemma parse_list_reported:
  assumes "raw \<noteq> []" and "loads e raw = Inr (JObject kvs)"
    and "dict_get kvs (lit ''results'') (JArray []) = JArray rs"
    and "list_all is_dict rs"
  shows "parse_list e flag (Some raw) = Inr (JArray (map (with_flag flag) rs))"
  using assms by (simp add: parse_list_def bind_err_def mark_all_dicts)

text \<open>
  C2, as the code has it. When the tool's output decodes to an object whose
  \<^verbatim>\<open>results\<close> is a list of records, a fetch returns every reported record, in the
  reported order, with only the tier flag set: the slugs of the result are the reported
  slugs, so they are unique exactly when the tool reported unique slugs. This holds for
  \<^verbatim>\<open>list_snippets\<close> (flag true) and \<^verbatim>\<open>search_snippets\<close> (flag false). Nothing is dropped in
  favour of a later record.
\<close>

theorem tier_fetch_keeps_every_record:
  assumes "raw \<noteq> []" and "loads e raw = Inr (JObject kvs)"
    and "dict_get kvs (lit ''results'') (JArray []) = JArray rs"
    and "list_all is_dict rs"
  shows "parse_list e flag (Some raw) = Inr (JArray (map (with_flag flag) rs))
    \<and> map slug_of (map (with_flag flag) rs) = map slug_of rs
    \<and> (distinct (map slug_of (map (with_flag flag) rs)) \<longleftrightarrow> distinct (map slug_of rs))
    \<and> (snd (run_temper e ([lit ''list'', lit ''--json''] @ language_args language) None) = Some raw
         \<longrightarrow> snd (list_snippets e language) = Inr (JArray (map (with_flag True) rs)))
    \<and> (snd (run_temper e ([lit ''search''] @ [lit ''--json''] @ language_args language) None)
           = Some raw
         \<longrightarrow> snd (search_snippets e None language) = Inr (JArray (map (with_flag False) rs)))"
proof -
  have m: "map slug_of (map (with_flag flag) rs) = map slug_of rs"
    by (simp add: slug_of_with_flag)
  have p: "\<And>f. parse_list e f (Some raw) = Inr (JArray (map (with_flag f) rs))"
    using assms by (rule parse_list_reported)
  show ?thesis
    unfolding m
    by (auto simp: p list_snippets_def search_snippets_def split: prod.splits)
qed

theorem tier_fetch_keeps_every_record_witness:
  \<open>parse_list base_env False (Some (lit ''{"results":[{"slug":"a"},{"slug":"b"}]}''))
   = Inr (JArray
       [JObject [(lit ''slug'', JString (lit ''a'')), (lit ''isLocal'', JBool False)],
        JObject [(lit ''slug'', JString (lit ''b'')), (lit ''isLocal'', JBool False)]])\<close>
  using tier_fetch_keeps_every_record
    [of \<open>lit ''{"results":[{"slug":"a"},{"slug":"b"}]}''\<close> base_env
        \<open>[(lit ''results'',
            JArray [JObject [(lit ''slug'', JString (lit ''a''))],
                    JObject [(lit ''slug'', JString (lit ''b''))]])]\<close>
        \<open>[JObject [(lit ''slug'', JString (lit ''a''))],
          JObject [(lit ''slug'', JString (lit ''b''))]]\<close>
        False None]
  by (simp add: base_env_def decoder_eval)

text \<open>The claim as stated fails: the tool reports two records with the slug \<^verbatim>\<open>a\<close>, and
  \<^verbatim>\<open>list_snippets\<close> returns both.\<close>

theorem list_snippets_keeps_duplicates:
  \<open>snd (list_snippets
          (base_env\<lparr>popen :=
             answering
               (bytes_of ''{"results":[{"slug":"a","title":"one"},{"slug":"a","title":"two"}]}'')
               [] 0\<rparr>)
          None)
   = Inr (JArray
       [JObject [(lit ''slug'', JString (lit ''a'')), (lit ''title'', JString (lit ''one'')),
                 (lit ''isLocal'', JBool True)],
        JObject [(lit ''slug'', JString (lit ''a'')), (lit ''title'', JString (lit ''two'')),
                 (lit ''isLocal'', JBool True)]])\<close>
  by (simp add: list_snippets_def language_args_def parse_list_def bind_err_def
      tool_eval decoder_eval)

section \<open>Decode failures of the list parsers\<close>




section \<open>Decoding the result of a run\<close>

text \<open>
  C4. When decoding the whole text raises a \<^verbatim>\<open>ValueError\<close>, the text starts with an
  opening brace and its first line decodes, \<^verbatim>\<open>run_snippet\<close> returns the value decoded
  from the first line. On the payload \<^verbatim>\<open>{"success":true,"output":"x"}\<close> followed by a
  line of leaked log text it returns the dictionary with \<^verbatim>\<open>success\<close> true and
  \<^verbatim>\<open>output\<close> \<^verbatim>\<open>x\<close>.
\<close>

theorem parse_run_first_line_recovery:
  \<open>(\<forall>e raw x v.
       loads e raw = Inl x \<longrightarrow> is_ValueError x \<longrightarrow> startswith raw (lit ''{'') \<longrightarrow>
       loads e (first_line raw) = Inr v \<longrightarrow>
       parse_run e (Some raw) = Inr v)
   \<and> parse_run base_env
        (Some (lit ''{"success":true,"output":"x"}'' @ [10] @ lit ''LOG: leaked text''))
     = Inr (JObject [(lit ''success'', JBool True), (lit ''output'', JString (lit ''x''))])\<close>
proof -
  have g: "parse_run e (Some raw) = Inr v"
    if "loads e raw = Inl x" "is_ValueError x" "startswith raw (lit ''{'')"
      "loads e (first_line raw) = Inr v" for e raw x v
  proof -
    from that(3) have "raw \<noteq> []"
      by (auto simp: startswith_def lit_def)
    with that show ?thesis
      by (simp add: parse_run_def)
  qed
  have c: \<open>parse_run base_env
        (Some (lit ''{"success":true,"output":"x"}'' @ [10] @ lit ''LOG: leaked text''))
     = Inr (JObject [(lit ''success'', JBool True), (lit ''output'', JString (lit ''x''))])\<close>
    by (simp add: parse_run_def startswith_def first_line_def is_ValueError_def
        base_env_def decoder_eval)
  from g c show ?thesis by blast
qed

theorem parse_run_first_line_recovery_witness:
  \<open>parse_run base_env (Some (lit ''{"success":false,"error":"boom"}'' @ [10] @ lit ''late''))
   = Inr (JObject [(lit ''success'', JBool False), (lit ''error'', JString (lit ''boom''))])\<close>
proof -
  let ?raw = \<open>lit ''{"success":false,"error":"boom"}'' @ [10] @ lit ''late''\<close>
  have 1: "loads base_env ?raw = Inl ValueError"
    by (simp add: base_env_def decoder_eval)
  have 2: "is_ValueError ValueError"
    by (simp add: is_ValueError_def)
  have 3: \<open>startswith ?raw (lit ''{'')\<close>
    by (simp add: startswith_def lit_def)
  have 4: \<open>loads base_env (first_line ?raw)
      = Inr (JObject [(lit ''success'', JBool False), (lit ''error'', JString (lit ''boom''))])\<close>
    by (simp add: first_line_def base_env_def decoder_eval)
  from parse_run_first_line_recovery 1 2 3 4 show ?thesis
    by blast
qed



section \<open>The language fallback of the detail fetch\<close>










section \<open>Filter degradation in the search panel\<close>

lemma slug_set_dicts: "slug_set rs = Inr ss \<Longrightarrow> list_all is_dict rs"
proof (induction rs arbitrary: ss)
  case Nil
  show ?case by simp
next
  case (Cons r rs)
  then show ?case
    by (cases r) (auto simp: bind_err_def split: if_splits sum.splits)
qed

lemma append_cloud_dicts: "append_cloud sl rs = Inr rest \<Longrightarrow> list_all is_dict rest"
proof (induction rs arbitrary: rest)
  case Nil
  then show ?case by simp
next
  case (Cons r rs)
  then show ?case
    by (cases r) (auto simp: bind_err_def split: if_splits sum.splits)
qed

lemma get_all_snippets_dicts:
  assumes "get_all_snippets c = Inr m"
  shows "list_all is_dict m"
proof -
  from assms obtain l ss cl rest where
    "py_iter (cache_local c) = Inr l" "slug_set l = Inr ss"
    "py_iter (cache_cloud c) = Inr cl" "append_cloud ss cl = Inr rest" "m = l @ rest"
    by (auto simp: get_all_snippets_def bind_err_def split: sum.splits)
  then show ?thesis
    by (simp add: slug_set_dicts append_cloud_dicts)
qed

lemma format_items_dicts:
  "list_all is_dict rs \<Longrightarrow> \<exists>items. format_items e rs = Inr items \<and> length items = length rs"
proof (induction rs)
  case Nil
  show ?case by simp
next
  case (Cons r rs)
  then obtain kvs where "r = JObject kvs" by (cases r) auto
  with Cons show ?case by (auto simp: bind_err_def)
qed

lemma filter_language_subset: "filter_language l rs = Inr out \<Longrightarrow> set out \<subseteq> set rs"
proof (induction rs arbitrary: out)
  case Nil
  then show ?case by simp
next
  case (Cons r rs)
  then show ?case
    by (auto simp: bind_err_def split: if_splits sum.splits)
qed

lemma language_results_nonempty:
  assumes "language_results language m = Inr rs" and "m \<noteq> []" and "list_all is_dict m"
  shows "rs \<noteq> [] \<and> list_all is_dict rs"
proof (cases "str_truthy language")
  case False
  with assms show ?thesis
    by (cases language) (auto simp: language_results_def)
next
  case True
  then obtain l where l: "language = Some l" "l \<noteq> []"
    by (cases language) auto
  with assms(1) obtain filtered where f: "filter_language l m = Inr filtered"
    and rs: "rs = (if filtered \<noteq> [] then filtered else m)"
    by (auto simp: language_results_def bind_err_def split: sum.splits)
  from filter_language_subset [OF f] assms(3) have "list_all is_dict filtered"
    by (auto simp: list_all_iff)
  with rs assms(2,3) show ?thesis by auto
qed

text \<open>
  C7. For every non-empty merged view and every language tag, if the language filter
  yields the empty list, the session keeps the whole merged view as its results and
  opens the panel on one item for each of its records. And whenever the session opens
  the panel at all, its results are not empty: with an empty merged view no panel is
  opened, only the status message \<^verbatim>\<open>No snippets available\<close> is shown.
\<close>

theorem show_panel_filter_degradation:
  "(\<forall>e c l m. get_all_snippets c = Inr m \<longrightarrow> m \<noteq> [] \<longrightarrow> filter_language l m = Inr [] \<longrightarrow>
      (\<exists>items. format_items e m = Inr items \<and> length items = length m
         \<and> show_panel e c (Some l) = ([ShowQuickPanel items, StatusMessage []], Some m, None)))
   \<and> (\<forall>e c language evs rs. show_panel e c language = (evs, Some rs, None) \<longrightarrow>
        rs \<noteq> []
        \<and> (\<exists>items. evs = [ShowQuickPanel items, StatusMessage []]
              \<and> length items = length rs))
   \<and> (\<forall>e c language. get_all_snippets c = Inr [] \<longrightarrow>
        show_panel e c language
          = ([StatusMessage (lit ''Temper: No snippets available'')], None, None))"
proof -
  have a: "\<exists>items. format_items e m = Inr items \<and> length items = length m
         \<and> show_panel e c (Some l) = ([ShowQuickPanel items, StatusMessage []], Some m, None)"
    if "get_all_snippets c = Inr m" "m \<noteq> []" "filter_language l m = Inr []" for e c l m
  proof -
    from get_all_snippets_dicts [OF that(1)] obtain items where
      i: "format_items e m = Inr items" "length items = length m"
      using format_items_dicts by blast
    have "language_results (Some l) m = Inr m"
      using that(3) by (simp add: language_results_def bind_err_def)
    with that(1,2) i show ?thesis
      by (simp add: show_panel_def)
  qed
  have b: "rs \<noteq> [] \<and> (\<exists>items. evs = [ShowQuickPanel items, StatusMessage []]
              \<and> length items = length rs)"
    if "show_panel e c language = (evs, Some rs, None)" for e c language evs rs
  proof -
    from that obtain m where m: "get_all_snippets c = Inr m" "m \<noteq> []"
      by (auto simp: show_panel_def split: sum.splits if_splits)
    with that have lr: "language_results language m = Inr rs"
      by (auto simp: show_panel_def split: sum.splits if_splits)
    from language_results_nonempty [OF lr m(2) get_all_snippets_dicts [OF m(1)]]
    have ne: "rs \<noteq> []" and d: "list_all is_dict rs" by simp_all
    from format_items_dicts [OF d, of e] obtain items where
      i: "format_items e rs = Inr items" "length items = length rs" by blast
    from that m lr i have "evs = [ShowQuickPanel items, StatusMessage []]"
      by (simp add: show_panel_def)
    with ne i(2) show ?thesis by blast
  qed
  have c: "show_panel e c language
          = ([StatusMessage (lit ''Temper: No snippets available'')], None, None)"
    if "get_all_snippets c = Inr []" for e c language
    using that by (simp add: show_panel_def)
  from a b c show ?thesis by blast
qed

theorem show_panel_filter_degradation_witness:
  \<open>fst (snd (show_panel base_env python_cache (Some (lit ''ruby''))))
   = Some
       [JObject [(lit ''slug'', JString (lit ''a'')),
                 (lit ''languages'', JArray [JString (lit ''python'')]),
                 (lit ''isLocal'', JBool True)],
        JObject [(lit ''slug'', JString (lit ''b'')),
                 (lit ''languages'', JArray [JString (lit ''python'')]),
                 (lit ''isLocal'', JBool True)]]\<close>
proof -
  let ?m = \<open>[JObject [(lit ''slug'', JString (lit ''a'')),
                 (lit ''languages'', JArray [JString (lit ''python'')]),
                 (lit ''isLocal'', JBool True)],
        JObject [(lit ''slug'', JString (lit ''b'')),
                 (lit ''languages'', JArray [JString (lit ''python'')]),
                 (lit ''isLocal'', JBool True)]]\<close>
  have 1: "get_all_snippets python_cache = Inr ?m"
    by (simp add: get_all_snippets_def python_cache_def bind_err_def dict_get_def lit_def)
  have 2: "?m \<noteq> []"
    by simp
  have 3: \<open>filter_language (lit ''ruby'') ?m = Inr []\<close>
    by (simp add: bind_err_def dict_get_def lit_def)
  from show_panel_filter_degradation 1 2 3
  have \<open>\<exists>items. format_items base_env ?m = Inr items \<and> length items = length ?m
         \<and> show_panel base_env python_cache (Some (lit ''ruby''))
            = ([ShowQuickPanel items, StatusMessage []], Some ?m, None)\<close>
    by blast
  then show ?thesis
    by auto
qed

section \<open>What the invoker returns\<close>

text \<open>
  C9, as the code has it. For every invocation in which the subprocess starts, the
  input (if any) can be encoded, the process exits, and its output is valid UTF-8 (and
  so is its error stream, when the exit status is not zero and the error stream is not
  empty), \<^verbatim>\<open>run_temper\<close> returns the output decoded and stripped of surrounding white
  space. With a non-zero exit status and a non-empty error stream the only further
  effect is the log line \<^verbatim>\<open>Temper error: ...\<close>: no dialog, no failure.
\<close>

theorem run_temper_returns_stdout:
  assumes "popen e (get_cli_path e # args) = Process communicate"
    and "encode_input stdin = Some input"
    and "communicate input = Exited out err returncode"
    and "decode_utf8 out = Some text"
    and "returncode \<noteq> 0 \<and> err \<noteq> [] \<Longrightarrow> decode_utf8 err = Some msg"
  shows "run_temper e args stdin =
           (Popen (get_cli_path e # args)
              # (if returncode \<noteq> 0 \<and> err \<noteq> []
                 then [Print (lit ''Temper error: '' @ msg)] else []),
            Some (strip text))"
proof (cases "returncode \<noteq> 0 \<and> err \<noteq> []")
  case True
  with assms(5) have "decode_utf8 err = Some msg" by simp
  with True assms(1-4) show ?thesis
    by (simp add: run_temper_def)
next
  case False
  with assms(1-4) show ?thesis
    by (auto simp: run_temper_def)
qed

theorem run_temper_returns_stdout_witness:
  \<open>run_temper (base_env\<lparr>popen := answering (bytes_of '' {"success":false} '') (bytes_of ''warn'') 1\<rparr>)
     [lit ''run'', lit ''x'', lit ''--json''] None
   = ([Popen [lit ''temper'', lit ''run'', lit ''x'', lit ''--json''],
       Print (lit ''Temper error: warn'')],
      Some (lit ''{"success":false}''))\<close>
proof -
  let ?e = \<open>base_env\<lparr>popen := answering (bytes_of '' {"success":false} '') (bytes_of ''warn'') 1\<rparr>\<close>
  let ?args = \<open>[lit ''run'', lit ''x'', lit ''--json'']\<close>
  have 1: \<open>popen ?e (get_cli_path ?e # ?args)
      = Process (\<lambda>input. Exited (bytes_of '' {"success":false} '') (bytes_of ''warn'') 1)\<close>
    by (simp add: answering_def)
  have 2: "encode_input None = Some None"
    by simp
  have 3: \<open>(\<lambda>input. Exited (bytes_of '' {"success":false} '') (bytes_of ''warn'') 1) None
      = Exited (bytes_of '' {"success":false} '') (bytes_of ''warn'') 1\<close>
    by simp
  have 4: \<open>decode_utf8 (bytes_of '' {"success":false} '') = Some (lit '' {"success":false} '')\<close>
    by (simp add: bytes_of_def lit_def)
  have 5: \<open>decode_utf8 (bytes_of ''warn'') = Some (lit ''warn'')\<close>
    by (simp add: bytes_of_def lit_def)
  have 6: \<open>strip (lit '' {"success":false} '') = lit ''{"success":false}''\<close>
    by (simp add: strip_def isspace_def lit_def)
  have 7: \<open>get_cli_path ?e = lit ''temper''\<close>
    by (simp add: get_cli_path_def base_env_def)
  have 8: \<open>lit ''Temper error: '' @ lit ''warn'' = lit ''Temper error: warn''\<close>
    by (simp add: lit_def)
  have 9: \<open>(1::int) \<noteq> 0 \<and> bytes_of ''warn'' \<noteq> []\<close>
    by (simp add: bytes_of_def)
  from run_temper_returns_stdout [of ?e ?args _ None None _ _ 1, OF 1 2 3 4 5] 9
  show ?thesis
    unfolding 6 7 8 by simp
qed

text \<open>The claim as stated fails on a stream that is not UTF-8, which ends in the
  catch-all handler: a process that exits with status 0 and the output byte \<open>0xFF\<close>, and
  a process that exits with status 1, a decodable output and the error byte \<open>0xFF\<close>,
  both make \<^verbatim>\<open>run_temper\<close> return \<^verbatim>\<open>None\<close>.\<close>

theorem run_temper_undecodable_stream:
  \<open>snd (run_temper (base_env\<lparr>popen := answering [0xFF] [] 0\<rparr>) [lit ''config'', lit ''--json'']
          None) = None
   \<and> decode_utf8 (bytes_of ''{}'') = Some (lit ''{}'')
   \<and> snd (run_temper (base_env\<lparr>popen := answering (bytes_of ''{}'') [0xFF] 1\<rparr>)
            [lit ''config'', lit ''--json''] None) = None\<close>
  by (simp add: tool_eval temper_except_def lit_def)

section \<open>The gating predicate of the run-current-file command\<close>

lemma is_snippet_file_dir:
  assumes "snd (get_snippets_dir e) = Inr (JString d)"
  shows "snd (is_snippet_file e (Some p)) = Inr (p \<noteq> [] \<and> prefix d p)"
proof -
  obtain evs where "get_snippets_dir e = (evs, Inr (JString d))"
    using assms by (cases "get_snippets_dir e") simp
  then show ?thesis
    by (auto simp: is_snippet_file_def bind_err_def startswith_def)
qed

lemma get_snippets_dir_missing_key:
  assumes "snd (run_temper e [lit ''config'', lit ''--json''] None) = Some raw"
    and "raw \<noteq> []" and "loads e raw = Inr (JObject kvs)"
    and "map_of kvs (lit ''snippetsDir'') = None"
  shows "snd (get_snippets_dir e) = Inr (JString [])"
proof -
  obtain evs where "run_temper e [lit ''config'', lit ''--json''] None = (evs, Some raw)"
    using assms(1) by (cases "run_temper e [lit ''config'', lit ''--json''] None") simp
  with assms(2-4) show ?thesis
    by (simp add: get_snippets_dir_def parse_config_def bind_err_def dict_get_def)
qed

text \<open>
  C10. When the configured snippets directory is a string \<open>d\<close>, \<^verbatim>\<open>is_snippet_file\<close> answers true
  exactly when the file path is non-empty and \<open>d\<close> is a prefix of it as a string; with
  no file path it answers false. So when the configuration decodes to an object
  without \<^verbatim>\<open>snippetsDir\<close> the directory is the empty string and every non-empty path
  passes; and with the directory \<^verbatim>\<open>/home/u/Snippets\<close> the path
  \<^verbatim>\<open>/home/u/Snippets2/x.js\<close> in a sibling directory passes.
\<close>

theorem is_snippet_file_is_string_prefix:
  \<open>(\<forall>e d p. snd (get_snippets_dir e) = Inr (JString d) \<longrightarrow>
       snd (is_snippet_file e (Some p)) = Inr (p \<noteq> [] \<and> prefix d p))
   \<and> (\<forall>e. is_snippet_file e None = ([], Inr False))
   \<and> (\<forall>e raw kvs p.
        snd (run_temper e [lit ''config'', lit ''--json''] None) = Some raw \<longrightarrow> raw \<noteq> [] \<longrightarrow>
        loads e raw = Inr (JObject kvs) \<longrightarrow> map_of kvs (lit ''snippetsDir'') = None \<longrightarrow>
        p \<noteq> [] \<longrightarrow>
        snd (get_snippets_dir e) = Inr (JString []) \<and> snd (is_snippet_file e (Some p)) = Inr True)
   \<and> snd (is_snippet_file
            (base_env\<lparr>popen := answering (bytes_of ''{"snippetsDir":"/home/u/Snippets"}'') [] 0\<rparr>)
            (Some (lit ''/home/u/Snippets2/x.js''))) = Inr True\<close>
proof -
  have a: "snd (is_snippet_file e (Some p)) = Inr (p \<noteq> [] \<and> prefix d p)"
    if "snd (get_snippets_dir e) = Inr (JString d)" for e d p
    using that by (rule is_snippet_file_dir)
  have b: "is_snippet_file e None = ([], Inr False)" for e
    by (simp add: is_snippet_file_def)
  have c: "snd (get_snippets_dir e) = Inr (JString []) \<and> snd (is_snippet_file e (Some p)) = Inr True"
    if "snd (run_temper e [lit ''config'', lit ''--json''] None) = Some raw" "raw \<noteq> []"
      "loads e raw = Inr (JObject kvs)" "map_of kvs (lit ''snippetsDir'') = None" "p \<noteq> []"
    for e raw kvs p
  proof -
    have d: "snd (get_snippets_dir e) = Inr (JString [])"
      using that(1-4) by (rule get_snippets_dir_missing_key)
    from is_snippet_file_dir [OF d, of p] that(5) d show ?thesis by simp
  qed
  have d: \<open>snd (is_snippet_file
            (base_env\<lparr>popen := answering (bytes_of ''{"snippetsDir":"/home/u/Snippets"}'') [] 0\<rparr>)
            (Some (lit ''/home/u/Snippets2/x.js''))) = Inr True\<close>
    by (simp add: is_snippet_file_def get_snippets_dir_def parse_config_def bind_err_def
        startswith_def tool_eval decoder_eval)
  from a b c d show ?thesis by blast
qed

theorem is_snippet_file_is_string_prefix_witness:
  \<open>snd (is_snippet_file (base_env\<lparr>popen := answering (bytes_of ''{"editor":"vim"}'') [] 0\<rparr>)
          (Some (lit ''/etc/passwd''))) = Inr True
   \<and> snd (is_snippet_file
            (base_env\<lparr>popen := answering (bytes_of ''{"snippetsDir":"/home/u/Snippets"}'') [] 0\<rparr>)
            (Some (lit ''/tmp/x.js''))) = Inr False\<close>
proof -
  let ?e = \<open>base_env\<lparr>popen := answering (bytes_of ''{"editor":"vim"}'') [] 0\<rparr>\<close>
  let ?f = \<open>base_env\<lparr>popen := answering (bytes_of ''{"snippetsDir":"/home/u/Snippets"}'') [] 0\<rparr>\<close>
  note t = is_snippet_file_is_string_prefix
  have 1: \<open>snd (run_temper ?e [lit ''config'', lit ''--json''] None) = Some (lit ''{"editor":"vim"}'')\<close>
    by (simp add: tool_eval lit_def)
  have 2: \<open>lit ''{"editor":"vim"}'' \<noteq> []\<close>
    by (simp add: lit_def)
  have 3: \<open>loads ?e (lit ''{"editor":"vim"}'')
      = Inr (JObject [(lit ''editor'', JString (lit ''vim''))])\<close>
    by (simp add: base_env_def decoder_eval)
  have 4: \<open>map_of [(lit ''editor'', JString (lit ''vim''))] (lit ''snippetsDir'') = None\<close>
    by (simp add: lit_def)
  have 5: \<open>lit ''/etc/passwd'' \<noteq> []\<close>
    by (simp add: lit_def)
  from t 1 2 3 4 5 have A: \<open>snd (is_snippet_file ?e (Some (lit ''/etc/passwd''))) = Inr True\<close>
    by blast
  have 6: \<open>snd (get_snippets_dir ?f) = Inr (JString (lit ''/home/u/Snippets''))\<close>
    by (simp add: get_snippets_dir_def parse_config_def bind_err_def tool_eval decoder_eval)
  from t 6 have \<open>snd (is_snippet_file ?f (Some (lit ''/tmp/x.js'')))
      = Inr (lit ''/tmp/x.js'' \<noteq> [] \<and> prefix (lit ''/home/u/Snippets'') (lit ''/tmp/x.js''))\<close>
    by blast
  then have B: \<open>snd (is_snippet_file ?f (Some (lit ''/tmp/x.js''))) = Inr False\<close>
    by (simp add: lit_def)
  from A B show ?thesis by blast
qed

text \<open>
  C8 at a path outside the snippets directory: the tool reports the directory
  \<^verbatim>\<open>/home/u/Snippets\<close>, the active file is \<^verbatim>\<open>/home/u/Snippets-old/notes.js\<close>, which does
  not reside under that directory, and \<^verbatim>\<open>is_snippet_file\<close> answers true. The fallback directory is
  used when the tool is not installed.
\<close>

theorem is_snippet_file_outside_directory:
  \<open>snd (is_snippet_file
          (base_env\<lparr>popen := answering (bytes_of ''{"snippetsDir":"/home/u/Snippets"}'') [] 0\<rparr>)
          (Some (lit ''/home/u/Snippets-old/notes.js''))) = Inr True
   \<and> snd (get_snippets_dir base_env) = Inr (JString (lit ''/home/u/Snippets''))\<close>
  by (simp add: is_snippet_file_def get_snippets_dir_def parse_config_def bind_err_def
      startswith_def temper_except_def tool_eval decoder_eval)

end
